theory Spec2Isabelle
  imports Complex_Main "HOL-Library.Word"
begin

section \<open>Python values shared by the two programs\<close>

text \<open>
  Text is held as the bytes of its UTF-8 encoding, so a \<open>str\<close> and a \<open>bytes\<close> value are
  both lists of 8-bit characters; what tells them apart is the operation that produced
  them.
\<close>

type_synonym str = "char list"
type_synonym bytes = "char list"

text \<open>
  A Python \<open>float\<close> is an IEEE binary64 value. The finite ones are carried by their exact
  value (every binary64 number is a real number; the model admits every real, so a
  statement about all \<open>Finite\<close> values covers all finite floats), and the four values
  that are not a real number have a constructor each.
\<close>

datatype pyfloat = Finite real | NegZero | PosInf | NegInf | NaN

text \<open>
  The classes of \<open>Exception\<close> that the two programs can meet. \<open>UnicodeDecodeError\<close> and
  \<open>JSONDecodeError\<close> are subclasses of \<open>ValueError\<close>; \<open>OtherError\<close> stands for any
  further subclass of \<open>Exception\<close> that a library or a classifier may raise.
\<close>

datatype exc =
    KeyError | TypeError | ValueError | OverflowError | IndexError
  | UnicodeDecodeError | JSONDecodeError | OtherError

fun is_ValueError :: "exc \<Rightarrow> bool" where
  "is_ValueError ValueError = True"
| "is_ValueError UnicodeDecodeError = True"
| "is_ValueError JSONDecodeError = True"
| "is_ValueError _ = False"

subsection \<open>Float literals\<close>

text \<open>
  A decimal literal denotes the binary64 number nearest to it. These are the exact values
  of \<open>0.05\<close>, \<open>0.3\<close>, \<open>1.8\<close> and \<open>4.2\<close>; the other literals of the programs and
  of the documented payloads (\<open>3.0\<close>, \<open>5.0\<close>, \<open>68.0\<close>, \<open>80.0\<close>, \<open>95.0\<close>, \<open>100.0\<close>)
  are binary64 numbers themselves.
\<close>

definition lit_0_05 :: real where
  "lit_0_05 = 3602879701896397 / 72057594037927936"

definition lit_0_3 :: real where
  "lit_0_3 = 5404319552844595 / 18014398509481984"

definition lit_1_8 :: real where
  "lit_1_8 = 8106479329266893 / 4503599627370496"

definition lit_4_2 :: real where
  "lit_4_2 = 4728779608739021 / 1125899906842624"

subsection \<open>Rounding\<close>

text \<open>Round to the nearest integer, a tie going to the even neighbour.\<close>

definition round_half_even :: "real \<Rightarrow> int" where
  "round_half_even x =
     (let f = \<lfloor>x\<rfloor>; r = x - of_int f
      in if r < 1 / 2 then f else if 1 / 2 < r then f + 1 else if even f then f else f + 1)"

fun bit_length :: "nat \<Rightarrow> nat" where
  "bit_length n = (if n = 0 then 0 else Suc (bit_length (n div 2)))"

declare bit_length.simps [simp del]

text \<open>
  The binary64 number nearest to a real \<open>x \<ge> 1\<close> (ties to even): \<open>x\<close> is scaled so that
  its integer part has 53 bits, rounded, and scaled back. The caller checks the range.
\<close>

definition round_binary64 :: "real \<Rightarrow> real" where
  "round_binary64 x =
     (let k = bit_length (nat \<lfloor>x\<rfloor>)
      in if k \<le> 53 then of_int (round_half_even (x * 2 ^ (53 - k))) / 2 ^ (53 - k)
         else of_int (round_half_even (x / 2 ^ (k - 53))) * 2 ^ (k - 53))"

text \<open>
  \<open>float(i)\<close> for a Python \<open>int\<close>: the nearest binary64 number, and \<open>OverflowError\<close>
  ("int too large to convert to float") when that would not be finite, which is from
  \<open>2^1024 - 2^970\<close> on.
\<close>

definition float_of_int :: "int \<Rightarrow> exc + pyfloat" where
  "float_of_int i =
     (if 2 ^ 1024 - 2 ^ 970 \<le> \<bar>i\<bar> then Inl OverflowError
      else if i = 0 then Inr (Finite 0)
      else if 0 < i then Inr (Finite (round_binary64 (of_int i)))
      else Inr (Finite (- round_binary64 (of_int (- i)))))"

subsection \<open>Formatting with \<open>:.2f\<close>\<close>

definition digit :: "nat \<Rightarrow> char" where
  "digit d = ''0123456789'' ! d"

fun dec :: "nat \<Rightarrow> str" where
  "dec n = (if n < 10 then [digit n] else dec (n div 10) @ [digit (n mod 10)])"

declare dec.simps [simp del]

text \<open>
  \<open>format(x, '.2f')\<close>: the exact value of the float, correctly rounded to two decimals
  (ties to even); the sign is that of the float, also when the digits round to zero.
\<close>

definition format_2f :: "pyfloat \<Rightarrow> str" where
  "format_2f x =
     (case x of
        Finite q \<Rightarrow>
          (let n = nat (round_half_even (\<bar>q\<bar> * 100))
           in (if q < 0 then ''-'' else []) @ dec (n div 100) @ ''.''
                @ [digit (n mod 100 div 10), digit (n mod 10)])
      | NegZero \<Rightarrow> ''-0.00''
      | PosInf \<Rightarrow> ''inf''
      | NegInf \<Rightarrow> ''-inf''
      | NaN \<Rightarrow> ''nan'')"

section \<open>realtime_inference.py\<close>

subsection \<open>Data\<close>

text \<open>
  What \<open>json.loads\<close> returns: a \<open>dict\<close> (its items in order), a \<open>list\<close>, a \<open>str\<close>, an
  \<open>int\<close>, a \<open>float\<close>, a \<open>bool\<close> or \<open>None\<close>.
\<close>

datatype json =
    JObject "(str \<times> json) list"
  | JArray "json list"
  | JString str
  | JInt int
  | JFloat pyfloat
  | JBool bool
  | JNull

text \<open>A one-row \<open>DataFrame\<close>: its columns in order, each a name and its values.\<close>

type_synonym dataframe = "(str \<times> pyfloat list) list"

text \<open>A scalar label as a classifier returns it.\<close>

datatype scalar = SInt int | SFloat pyfloat | SBool bool

text \<open>
  The loaded model is used through one operation, \<open>predict\<close>, which returns an array of
  labels or raises.
\<close>

record classifier =
  predict :: "dataframe \<Rightarrow> exc + scalar list"

record mqtt_message =
  topic :: str
  payload :: bytes

text \<open>
  The library operations the handler calls and does not define: \<open>bytes.decode("utf-8")\<close>,
  \<open>json.loads\<close>, \<open>float\<close> on a \<open>str\<close> (\<open>None\<close> for \<open>ValueError\<close>), and \<open>str\<close> on a parsed
  value and on an exception, as the f-strings apply it.
\<close>

record pylib =
  decode_utf8 :: "bytes \<Rightarrow> exc + str"
  json_loads :: "str \<Rightarrow> exc + json"
  float_of_str :: "str \<Rightarrow> pyfloat option"
  str_of_json :: "json \<Rightarrow> str"
  str_of_exc :: "exc \<Rightarrow> str"

text \<open>
  What the handler does to the outside: the lines it prints, and the calls it makes to
  the decoder, the parser and the classifier, in order.
\<close>

datatype event = Decode bytes | Loads str | Predict dataframe

record world =
  console :: "str list"
  trace :: "event list"

definition print :: "str \<Rightarrow> world \<Rightarrow> world" where
  "print s w = w\<lparr>console := console w @ [s]\<rparr>"

definition called :: "event \<Rightarrow> world \<Rightarrow> world" where
  "called e w = w\<lparr>trace := trace w @ [e]\<rparr>"

subsection \<open>Constants\<close>

definition ESC :: char where
  "ESC = CHR 0x1B"

definition COLOR_RESET :: str where
  "COLOR_RESET = ESC # ''[0m''"

definition COLOR_GREEN :: str where
  "COLOR_GREEN = ESC # ''[92m''"

definition COLOR_RED :: str where
  "COLOR_RED = ESC # ''[91m''"

definition COLOR_BOLD :: str where
  "COLOR_BOLD = ESC # ''[1m''"

text \<open>U+1F6A8 (the rotating light) and U+00B0 (the degree sign), in UTF-8.\<close>

definition siren :: str where
  "siren = [CHR 0xF0, CHR 0x9F, CHR 0x9A, CHR 0xA8]"

definition degree :: str where
  "degree = [CHR 0xC2, CHR 0xB0]"

definition apostrophe :: char where
  "apostrophe = CHR 0x27"

subsection \<open>Operations of the language\<close>

text \<open>\<open>d.get(k)\<close>: the value stored under \<open>k\<close>, or \<open>None\<close> when there is none.\<close>

definition dict_get :: "(str \<rightharpoonup> 'a option) \<Rightarrow> str \<Rightarrow> 'a option" where
  "dict_get d k = (case d k of None \<Rightarrow> None | Some v \<Rightarrow> v)"

text \<open>
  \<open>data[k]\<close> with a \<open>str\<close> key: \<open>KeyError\<close> on a \<open>dict\<close> without the key, \<open>TypeError\<close> on
  every value that is not a \<open>dict\<close>.
\<close>

fun py_getitem :: "json \<Rightarrow> str \<Rightarrow> exc + json" where
  "py_getitem (JObject kvs) k = (case map_of kvs k of None \<Rightarrow> Inl KeyError | Some v \<Rightarrow> Inr v)"
| "py_getitem _ k = Inl TypeError"

text \<open>\<open>float(v)\<close> on a parsed value.\<close>

fun py_float :: "pylib \<Rightarrow> json \<Rightarrow> exc + pyfloat" where
  "py_float lib (JFloat f) = Inr f"
| "py_float lib (JInt i) = float_of_int i"
| "py_float lib (JBool b) = Inr (Finite (if b then 1 else 0))"
| "py_float lib (JString s) =
     (case float_of_str lib s of None \<Rightarrow> Inl ValueError | Some f \<Rightarrow> Inr f)"
| "py_float lib _ = Inl TypeError"

text \<open>
  \<open>int(p)\<close> on a label: a float is truncated toward zero; \<open>int\<close> of an infinity raises
  \<open>OverflowError\<close> and of a NaN \<open>ValueError\<close>.
\<close>

fun py_int :: "scalar \<Rightarrow> exc + int" where
  "py_int (SInt i) = Inr i"
| "py_int (SBool b) = Inr (if b then 1 else 0)"
| "py_int (SFloat (Finite q)) = Inr (if 0 \<le> q then \<lfloor>q\<rfloor> else \<lceil>q\<rceil>)"
| "py_int (SFloat NegZero) = Inr 0"
| "py_int (SFloat PosInf) = Inl OverflowError"
| "py_int (SFloat NegInf) = Inl OverflowError"
| "py_int (SFloat NaN) = Inl ValueError"

text \<open>\<open>a[0]\<close> on the array that \<open>predict\<close> returned.\<close>

fun first :: "scalar list \<Rightarrow> exc + scalar" where
  "first [] = Inl IndexError"
| "first (p # ps) = Inr p"

subsection \<open>The handler\<close>

definition build_features :: "pyfloat \<Rightarrow> pyfloat \<Rightarrow> dataframe" where
  "build_features temperature vibration =
     [(''temperature'', [temperature]), (''vibration'', [vibration])]"

text \<open>The body of the second \<open>try\<close> block: both fields, the temperature first.\<close>

definition read_fields :: "pylib \<Rightarrow> json \<Rightarrow> exc + pyfloat \<times> pyfloat" where
  "read_fields lib data =
     (case py_getitem data ''temperature'' of
        Inl e \<Rightarrow> Inl e
      | Inr x \<Rightarrow>
          (case py_float lib x of
             Inl e \<Rightarrow> Inl e
           | Inr temperature \<Rightarrow>
               (case py_getitem data ''vibration'' of
                  Inl e \<Rightarrow> Inl e
                | Inr y \<Rightarrow>
                    (case py_float lib y of
                       Inl e \<Rightarrow> Inl e
                     | Inr vibration \<Rightarrow> Inr (temperature, vibration)))))"

text \<open>\<open>except (KeyError, TypeError, ValueError)\<close>.\<close>

definition caught_by_field_handler :: "exc \<Rightarrow> bool" where
  "caught_by_field_handler e = (e = KeyError \<or> e = TypeError \<or> is_ValueError e)"

definition decode_failed_text :: "pylib \<Rightarrow> str \<Rightarrow> exc \<Rightarrow> str" where
  "decode_failed_text lib tp e =
     ''Failed to decode/parse message on topic '' @ [apostrophe] @ tp @ [apostrophe]
       @ '': '' @ str_of_exc lib e"

definition invalid_fields_text :: "pylib \<Rightarrow> json \<Rightarrow> exc \<Rightarrow> str" where
  "invalid_fields_text lib data e =
     ''Missing or invalid fields in payload: '' @ str_of_json lib data @ '' (''
       @ str_of_exc lib e @ '')''"

definition prediction_failed_text :: "pylib \<Rightarrow> exc \<Rightarrow> str" where
  "prediction_failed_text lib e = ''Model prediction failed: '' @ str_of_exc lib e"

definition anomaly_text :: "pyfloat \<Rightarrow> pyfloat \<Rightarrow> str" where
  "anomaly_text temperature vibration =
     COLOR_RED @ COLOR_BOLD @ siren @ '' [ALERT] ANOMALY DETECTED! ''
       @ ''Machine failure imminent! Temp: '' @ format_2f temperature @ degree
       @ ''C, Vib: '' @ format_2f vibration @ '' mm/s '' @ siren @ COLOR_RESET"

definition normal_text :: "pyfloat \<Rightarrow> pyfloat \<Rightarrow> str" where
  "normal_text temperature vibration =
     COLOR_GREEN @ ''[NORMAL]'' @ COLOR_RESET @ '' ''
       @ ''Temp: '' @ format_2f temperature @ degree
       @ ''C, Vib: '' @ format_2f vibration @ '' mm/s''"

text \<open>
  \<open>on_message\<close>. The result is \<open>Inr ()\<close> when the handler returns and \<open>Inl e\<close> when the
  exception \<open>e\<close> leaves it.
\<close>

definition on_message ::
  "pylib \<Rightarrow> (str \<rightharpoonup> classifier option) \<Rightarrow> mqtt_message \<Rightarrow> world \<Rightarrow> (exc + unit) \<times> world"
where
  "on_message lib userdata msg w =
     (case dict_get userdata ''model'' of
        None \<Rightarrow> (Inr (), print ''Model not found in userdata; cannot run inference.'' w)
      | Some model \<Rightarrow>
          (let w1 = called (Decode (payload msg)) w in
           case decode_utf8 lib (payload msg) of
             Inl e \<Rightarrow> (Inr (), print (decode_failed_text lib (topic msg) e) w1)
           | Inr payload_str \<Rightarrow>
               (let w2 = called (Loads payload_str) w1 in
                case json_loads lib payload_str of
                  Inl e \<Rightarrow> (Inr (), print (decode_failed_text lib (topic msg) e) w2)
                | Inr data \<Rightarrow>
                    (case read_fields lib data of
                       Inl e \<Rightarrow>
                         if caught_by_field_handler e
                         then (Inr (), print (invalid_fields_text lib data e) w2)
                         else (Inl e, w2)
                     | Inr (temperature, vibration) \<Rightarrow>
                         (let X = build_features temperature vibration;
                              w3 = called (Predict X) w2 in
                          case (case predict model X of Inl e \<Rightarrow> Inl e | Inr a \<Rightarrow> first a) of
                            Inl e \<Rightarrow> (Inr (), print (prediction_failed_text lib e) w3)
                          | Inr prediction \<Rightarrow>
                              (case py_int prediction of
                                 Inl e \<Rightarrow> (Inl e, w3)
                               | Inr k \<Rightarrow>
                                   (Inr (),
                                    print (if k = 1 then anomaly_text temperature vibration
                                           else normal_text temperature vibration) w3)))))))"

text \<open>
  \<open>client.loop_forever()\<close> hands the inbound messages to the handler one at a time, in
  arrival order; an exception that leaves the handler leaves the loop.
\<close>

fun loop_forever ::
  "pylib \<Rightarrow> (str \<rightharpoonup> classifier option) \<Rightarrow> mqtt_message list \<Rightarrow> world \<Rightarrow> (exc + unit) \<times> world"
where
  "loop_forever lib userdata [] w = (Inr (), w)"
| "loop_forever lib userdata (msg # msgs) w =
     (case on_message lib userdata msg w of
        (Inl e, w') \<Rightarrow> (Inl e, w')
      | (Inr u, w') \<Rightarrow> loop_forever lib userdata msgs w')"

subsection \<open>Reading the console\<close>

definition starts_with :: "str \<Rightarrow> str \<Rightarrow> bool" where
  "starts_with p s = (take (length p) s = p)"

fun contains :: "str \<Rightarrow> str \<Rightarrow> bool" where
  "contains sub [] = (sub = [])"
| "contains sub (c # cs) = (starts_with sub (c # cs) \<or> contains sub cs)"

text \<open>
  The two alert formats are told apart from each other, and from every diagnostic line,
  by how the line begins.
\<close>

definition anomaly_styled :: "str \<Rightarrow> bool" where
  "anomaly_styled s = starts_with (COLOR_RED @ COLOR_BOLD @ siren @ '' [ALERT] ANOMALY DETECTED! '') s"

definition normal_styled :: "str \<Rightarrow> bool" where
  "normal_styled s = starts_with (COLOR_GREEN @ ''[NORMAL]'' @ COLOR_RESET) s"

definition is_alert :: "str \<Rightarrow> bool" where
  "is_alert s = (anomaly_styled s \<or> normal_styled s)"

section \<open>generate_historical_data.py\<close>

subsection \<open>Time\<close>

text \<open>
  A \<open>datetime\<close> in UTC is the number of microseconds since the epoch; a day of a
  \<open>datetime\<close> has 86400 seconds, so the minutes begin at the multiples of \<open>minute\<close>.
\<close>

type_synonym datetime = int

definition minute :: int where
  "minute = 60000000"

text \<open>\<open>.replace(second=0, microsecond=0)\<close>.\<close>

definition replace_second_microsecond :: "datetime \<Rightarrow> datetime" where
  "replace_second_microsecond ts = ts - ts mod minute"

text \<open>\<open>pd.date_range(start=start, periods=periods, freq="1min")\<close>.\<close>

definition date_range :: "datetime \<Rightarrow> nat \<Rightarrow> datetime list" where
  "date_range start periods = map (\<lambda>i. start + int i * minute) [0..<periods]"

subsection \<open>Arrays\<close>

text \<open>
  Array operations return \<open>None\<close> where numpy raises. The values of the two float
  columns are finite binary64 numbers, carried by their exact value: the program only
  stores and compares them and takes a maximum, which is exact.
\<close>

definition np_zeros :: "nat \<Rightarrow> 32 word list" where
  "np_zeros n = replicate n 0"

text \<open>\<open>np.empty\<close>: an array of whatever the memory held, given here as \<open>junk\<close>.\<close>

definition np_empty :: "nat \<Rightarrow> (nat \<Rightarrow> real) \<Rightarrow> real list" where
  "np_empty n junk = map junk [0..<n]"

text \<open>\<open>a[idx] = v\<close> for an array of indices and one value.\<close>

definition put_scalar :: "'a list \<Rightarrow> nat list \<Rightarrow> 'a \<Rightarrow> 'a list option" where
  "put_scalar a idx v =
     (if \<forall>i \<in> set idx. i < length a then Some (fold (\<lambda>i b. b[i := v]) idx a) else None)"

text \<open>
  \<open>a[idx] = vals\<close> for an array of indices and an array of values, stored in order (of
  two values for one index the later stays); a one-element \<open>vals\<close> is broadcast.
\<close>

definition put_index :: "'a list \<Rightarrow> nat list \<Rightarrow> 'a list \<Rightarrow> 'a list option" where
  "put_index a idx vals =
     (if \<not> (\<forall>i \<in> set idx. i < length a) then None
      else if length vals = length idx
        then Some (fold (\<lambda>(i, x) b. b[i := x]) (zip idx vals) a)
      else if length vals = 1 then put_scalar a idx (hd vals)
      else None)"

fun fill_mask :: "'a list \<Rightarrow> bool list \<Rightarrow> 'a list \<Rightarrow> 'a list" where
  "fill_mask (x # xs) (True # ms) (v # vs) = v # fill_mask xs ms vs"
| "fill_mask (x # xs) (False # ms) vs = x # fill_mask xs ms vs"
| "fill_mask xs ms vs = xs"

text \<open>
  \<open>a[mask] = vals\<close> for a boolean mask: the values go, in order, to the positions where
  the mask holds; a one-element \<open>vals\<close> is broadcast.
\<close>

definition put_mask :: "'a list \<Rightarrow> bool list \<Rightarrow> 'a list \<Rightarrow> 'a list option" where
  "put_mask a sel vals =
     (let m = length (filter (\<lambda>b. b) sel)
      in if length sel \<noteq> length a then None
         else if length vals = m then Some (fill_mask a sel vals)
         else if length vals = 1 then Some (fill_mask a sel (replicate m (hd vals)))
         else None)"

text \<open>\<open>np.clip(a, a_min=lo, a_max=None)\<close>.\<close>

definition np_clip_min :: "real list \<Rightarrow> real \<Rightarrow> real list" where
  "np_clip_min a lo = map (\<lambda>x. max lo x) a"

subsection \<open>The random generator\<close>

text \<open>
  The three operations of a numpy \<open>Generator\<close> that the program calls. Each takes the
  generator's state and returns the draw with the next state: \<open>choice n k\<close> is
  \<open>rng.choice(n, size=k, replace=False)\<close>, \<open>normal loc scale k\<close> is
  \<open>rng.normal(loc, scale, size=k)\<close> and \<open>uniform low high k\<close> is
  \<open>rng.uniform(low, high, size=k)\<close>.
\<close>

record 'g generator =
  choice :: "nat \<Rightarrow> nat \<Rightarrow> 'g \<Rightarrow> nat list \<times> 'g"
  normal :: "real \<Rightarrow> real \<Rightarrow> nat \<Rightarrow> 'g \<Rightarrow> real list \<times> 'g"
  uniform :: "real \<Rightarrow> real \<Rightarrow> nat \<Rightarrow> 'g \<Rightarrow> real list \<times> 'g"

text \<open>
  What numpy documents of them, in every state: a sample without replacement of \<open>k\<close> of
  the indices below \<open>n\<close> has \<open>k\<close> distinct entries below \<open>n\<close>; a draw of size \<open>k\<close> has
  \<open>k\<close> entries; a uniform draw lies between its bounds.
\<close>

definition generator_contract :: "'g generator \<Rightarrow> bool" where
  "generator_contract rng =
     ((\<forall>n k g. k \<le> n \<longrightarrow>
         length (fst (choice rng n k g)) = k \<and> distinct (fst (choice rng n k g))
           \<and> (\<forall>i \<in> set (fst (choice rng n k g)). i < n))
      \<and> (\<forall>loc scale k g. length (fst (normal rng loc scale k g)) = k)
      \<and> (\<forall>low high k g. low \<le> high \<longrightarrow>
           length (fst (uniform rng low high k g)) = k
             \<and> (\<forall>x \<in> set (fst (uniform rng low high k g)). low \<le> x \<and> x \<le> high)))"

text \<open>Sampling more than the population without replacement raises \<open>ValueError\<close>.\<close>

definition rng_choice :: "'g generator \<Rightarrow> nat \<Rightarrow> nat \<Rightarrow> 'g \<Rightarrow> (nat list \<times> 'g) option" where
  "rng_choice rng n k g = (if k \<le> n then Some (choice rng n k g) else None)"

subsection \<open>The data frame\<close>

record row =
  timestamp :: datetime
  machineId :: str
  temperature :: real
  vibration :: real
  is_anomaly :: "32 word"

text \<open>
  \<open>pd.DataFrame\<close> of four columns and one scalar, which is repeated in every row; columns
  of different lengths raise \<open>ValueError\<close>.
\<close>

definition DataFrame ::
  "datetime list \<Rightarrow> str \<Rightarrow> real list \<Rightarrow> real list \<Rightarrow> 32 word list \<Rightarrow> row list option"
where
  "DataFrame ts mid temp vib lab =
     (if length temp = length ts \<and> length vib = length ts \<and> length lab = length ts
      then Some (map (\<lambda>i. \<lparr>timestamp = ts ! i, machineId = mid, temperature = temp ! i,
                           vibration = vib ! i, is_anomaly = lab ! i\<rparr>) [0..<length ts])
      else None)"

subsection \<open>The program\<close>

definition n_rows :: nat where
  "n_rows = 10000"

definition machine_id :: str where
  "machine_id = ''NC_Machine_AC''"

text \<open>
  \<open>int(round(n_rows * 0.05))\<close>: the product is a binary64 multiplication, \<open>round\<close> goes
  to the nearest integer with ties to even.
\<close>

definition anomaly_count :: nat where
  "anomaly_count = nat (round_half_even (round_binary64 (real n_rows * lit_0_05)))"

text \<open>
  \<open>main\<close>, from the time read by \<open>datetime.now\<close>, the generator with its initial state,
  and the contents of the two uninitialised arrays; the result is the data frame that
  is written to the file, or \<open>None\<close> when an exception ends the program before.
\<close>

definition main ::
  "'g generator \<Rightarrow> 'g \<Rightarrow> datetime \<Rightarrow> (nat \<Rightarrow> real) \<Rightarrow> (nat \<Rightarrow> real) \<Rightarrow> row list option"
where
  "main rng g0 now junk_t junk_v =
     (let end_ts = replace_second_microsecond now;
          start_ts = end_ts - (int n_rows - 1) * minute;
          timestamps = date_range start_ts n_rows;
          temperature0 = np_empty n_rows junk_t;
          vibration0 = np_empty n_rows junk_v;
          is_anomaly0 = np_zeros n_rows
      in case rng_choice rng n_rows anomaly_count g0 of
           None \<Rightarrow> None
         | Some (anomaly_idx, g1) \<Rightarrow>
             (case put_scalar is_anomaly0 anomaly_idx 1 of
                None \<Rightarrow> None
              | Some is_anomaly1 \<Rightarrow>
                  (let normal_mask = map (\<lambda>x. x = 0) is_anomaly1;
                       normal_count = length (filter (\<lambda>b. b) normal_mask);
                       (normal_t, g2) = normal rng 68 3 normal_count g1
                   in case put_mask temperature0 normal_mask normal_t of
                        None \<Rightarrow> None
                      | Some temperature1 \<Rightarrow>
                          (let (normal_v, g3) = normal rng lit_1_8 lit_0_3 normal_count g2
                           in case put_mask vibration0 normal_mask normal_v of
                                None \<Rightarrow> None
                              | Some vibration1 \<Rightarrow>
                                  (let (spike_t, g4) = uniform rng 80 100 anomaly_count g3
                                   in case put_index temperature1 anomaly_idx spike_t of
                                        None \<Rightarrow> None
                                      | Some temperature2 \<Rightarrow>
                                          (let (spike_v, g5) = uniform rng 3 5 anomaly_count g4
                                           in case put_index vibration1 anomaly_idx spike_v of
                                                None \<Rightarrow> None
                                              | Some vibration2 \<Rightarrow>
                                                  DataFrame timestamps machine_id temperature2
                                                    (np_clip_min vibration2 0) is_anomaly1))))))"

section \<open>The coercion as the specification words it\<close>

text \<open>
  The specification defines the cast of the prediction as rounding to the nearest
  integer. This is that reading, kept apart from \<open>py_int\<close>, which is what \<open>int\<close> does.
\<close>

definition spec_coerce :: "real \<Rightarrow> int" where
  "spec_coerce x = round x"

section \<open>Test doubles\<close>

text \<open>
  Five payloads with what \<open>json.loads\<close> makes of them (the floats are the binary64
  values nearest to the literals), a library that knows these five texts, classifiers
  that return a fixed label or raise, and an empty world. They give the statements below
  concrete inputs.
\<close>

definition hot_payload :: bytes where
  \<open>hot_payload = ''{"temperature": 95.0, "vibration": 4.2}''\<close>

definition cool_payload :: bytes where
  \<open>cool_payload = ''{"temperature": 68.0, "vibration": 1.8}''\<close>

definition text_payload :: bytes where
  \<open>text_payload = ''{"temperature": "95.0", "vibration": true}''\<close>

definition unit_payload :: bytes where
  \<open>unit_payload = ''{"temperature": 95.0, "vibration": 1.0}''\<close>

definition huge_payload :: bytes where
  \<open>huge_payload = ''{"temperature": 1'' @ replicate 309 (CHR ''0'') @ '', "vibration": 1.8}''\<close>

definition hot_data :: json where
  "hot_data =
     JObject [(''temperature'', JFloat (Finite 95)), (''vibration'', JFloat (Finite lit_4_2))]"

definition cool_data :: json where
  "cool_data =
     JObject [(''temperature'', JFloat (Finite 68)), (''vibration'', JFloat (Finite lit_1_8))]"

definition text_data :: json where
  "text_data = JObject [(''temperature'', JString ''95.0''), (''vibration'', JBool True)]"

definition unit_data :: json where
  "unit_data =
     JObject [(''temperature'', JFloat (Finite 95)), (''vibration'', JFloat (Finite 1))]"

definition huge_int :: int where
  "huge_int = 10 ^ 309"

definition huge_data :: json where
  "huge_data =
     JObject [(''temperature'', JInt huge_int), (''vibration'', JFloat (Finite lit_1_8))]"

definition stub_loads :: "str \<Rightarrow> exc + json" where
  "stub_loads s =
     (if s = hot_payload then Inr hot_data
      else if s = cool_payload then Inr cool_data
      else if s = text_payload then Inr text_data
      else if s = unit_payload then Inr unit_data
      else if s = huge_payload then Inr huge_data
      else Inl JSONDecodeError)"

definition stub_lib :: pylib where
  "stub_lib =
     \<lparr>decode_utf8 = Inr, json_loads = stub_loads,
      float_of_str = (\<lambda>s. if s = ''95.0'' then Some (Finite 95) else None),
      str_of_json = (\<lambda>d. ''<data>''), str_of_exc = (\<lambda>e. ''<exc>'')\<rparr>"

definition stub_model :: "scalar \<Rightarrow> classifier" where
  "stub_model p = \<lparr>predict = (\<lambda>X. Inr [p])\<rparr>"

definition failing_model :: classifier where
  "failing_model = \<lparr>predict = (\<lambda>X. Inl OtherError)\<rparr>"

definition telemetry :: "bytes \<Rightarrow> mqtt_message" where
  "telemetry b = \<lparr>topic = ''factory/telemetry'', payload = b\<rparr>"

definition silent :: world where
  "silent = \<lparr>console = [], trace = []\<rparr>"

text \<open>
  A generator without chance that keeps the contract: it samples the first \<open>k\<close> indices
  and repeats the centre of a normal draw and the lower bound of a uniform one.
\<close>

definition stub_rng :: "unit generator" where
  "stub_rng =
     \<lparr>choice = (\<lambda>n k g. ([0..<k], g)),
      normal = (\<lambda>loc scale k g. (replicate k loc, g)),
      uniform = (\<lambda>low high k g. (replicate k low, g))\<rparr>"

section \<open>Properties of the inference client\<close>

subsection \<open>The test doubles\<close>

lemma stub_decode: "decode_utf8 stub_lib (payload (telemetry b)) = Inr b"
  by (simp add: stub_lib_def telemetry_def)

lemma stub_loads_hot: "json_loads stub_lib hot_payload = Inr hot_data"
  by (simp add: stub_lib_def stub_loads_def)

lemma stub_loads_cool: "json_loads stub_lib cool_payload = Inr cool_data"
  by (simp add: stub_lib_def stub_loads_def hot_payload_def cool_payload_def)

lemma stub_loads_text: "json_loads stub_lib text_payload = Inr text_data"
  by (simp add: stub_lib_def stub_loads_def hot_payload_def cool_payload_def text_payload_def)

lemma stub_loads_unit: "json_loads stub_lib unit_payload = Inr unit_data"
  by (simp add: stub_lib_def stub_loads_def hot_payload_def cool_payload_def text_payload_def
      unit_payload_def)

lemma stub_loads_huge: "json_loads stub_lib huge_payload = Inr huge_data"
  by (simp add: stub_lib_def stub_loads_def hot_payload_def cool_payload_def text_payload_def
      unit_payload_def huge_payload_def)

lemma stub_fields_hot: "read_fields stub_lib hot_data = Inr (Finite 95, Finite lit_4_2)"
  by (simp add: read_fields_def hot_data_def)

lemma stub_fields_cool: "read_fields stub_lib cool_data = Inr (Finite 68, Finite lit_1_8)"
  by (simp add: read_fields_def cool_data_def)

subsection \<open>Formatting and styling\<close>

lemma format_2f_95: "format_2f (Finite 95) = ''95.00''"
  by (simp add: format_2f_def round_half_even_def dec.simps digit_def)

lemma format_2f_68: "format_2f (Finite 68) = ''68.00''"
  by (simp add: format_2f_def round_half_even_def dec.simps digit_def)

lemma format_2f_4_2: "format_2f (Finite lit_4_2) = ''4.20''"
  by (simp add: lit_4_2_def format_2f_def round_half_even_def dec.simps digit_def)

lemma format_2f_1_8: "format_2f (Finite lit_1_8) = ''1.80''"
  by (simp add: lit_1_8_def format_2f_def round_half_even_def dec.simps digit_def)

text \<open>No diagnostic line can be taken for an alert, whatever text an exception carries.\<close>

lemma diagnostic_not_alert:
  "\<not> is_alert (prediction_failed_text lib e)"
  "\<not> is_alert (decode_failed_text lib tp e)"
  "\<not> is_alert (invalid_fields_text lib data e)"
  "\<not> is_alert ''Model not found in userdata; cannot run inference.''"
  by (simp_all add: is_alert_def anomaly_styled_def normal_styled_def starts_with_def
      prediction_failed_text_def decode_failed_text_def invalid_fields_text_def
      COLOR_RED_def COLOR_GREEN_def ESC_def)

lemma alert_styles:
  "anomaly_styled (anomaly_text t v)" "\<not> normal_styled (anomaly_text t v)"
  "normal_styled (normal_text t v)" "\<not> anomaly_styled (normal_text t v)"
  by (simp_all add: anomaly_styled_def normal_styled_def starts_with_def anomaly_text_def
      normal_text_def COLOR_RED_def COLOR_GREEN_def COLOR_BOLD_def COLOR_RESET_def siren_def
      ESC_def)

subsection \<open>The stages of the handler\<close>

lemma on_message_undecodable:
  assumes "userdata ''model'' = Some (Some model)"
    and "decode_utf8 lib (payload msg) = Inl e"
  shows "on_message lib userdata msg w =
           (Inr (), w\<lparr>console := console w @ [decode_failed_text lib (topic msg) e],
                       trace := trace w @ [Decode (payload msg)]\<rparr>)"
  using assms by (simp add: on_message_def dict_get_def called_def print_def)

lemma on_message_unparsable:
  assumes "userdata ''model'' = Some (Some model)"
    and "decode_utf8 lib (payload msg) = Inr s"
    and "json_loads lib s = Inl e"
  shows "on_message lib userdata msg w =
           (Inr (), w\<lparr>console := console w @ [decode_failed_text lib (topic msg) e],
                       trace := trace w @ [Decode (payload msg), Loads s]\<rparr>)"
  using assms by (simp add: on_message_def dict_get_def called_def print_def)

lemma on_message_fields_rejected:
  assumes "userdata ''model'' = Some (Some model)"
    and "decode_utf8 lib (payload msg) = Inr s"
    and "json_loads lib s = Inr data"
    and "read_fields lib data = Inl e"
  shows "on_message lib userdata msg w =
           (if caught_by_field_handler e
            then (Inr (), w\<lparr>console := console w @ [invalid_fields_text lib data e],
                             trace := trace w @ [Decode (payload msg), Loads s]\<rparr>)
            else (Inl e, w\<lparr>trace := trace w @ [Decode (payload msg), Loads s]\<rparr>))"
  using assms by (simp add: on_message_def dict_get_def called_def print_def)

lemma on_message_parsed:
  assumes "userdata ''model'' = Some (Some model)"
    and "decode_utf8 lib (payload msg) = Inr s"
    and "json_loads lib s = Inr data"
    and "read_fields lib data = Inr (t, v)"
  shows "on_message lib userdata msg w =
           (let w3 = w\<lparr>trace := trace w @ [Decode (payload msg), Loads s,
                                             Predict (build_features t v)]\<rparr>
            in case (case predict model (build_features t v) of
                       Inl e \<Rightarrow> Inl e | Inr a \<Rightarrow> first a) of
                 Inl e \<Rightarrow> (Inr (), print (prediction_failed_text lib e) w3)
               | Inr prediction \<Rightarrow>
                   (case py_int prediction of
                      Inl e \<Rightarrow> (Inl e, w3)
                    | Inr k \<Rightarrow>
                        (Inr (), print (if k = 1 then anomaly_text t v
                                        else normal_text t v) w3)))"
  using assms
  by (simp add: on_message_def dict_get_def called_def Let_def split: sum.splits)

text \<open>The fields of a \<open>dict\<close> are read when both are there and \<open>float\<close> takes both.\<close>

lemma read_fields_object:
  assumes "map_of kvs ''temperature'' = Some x" and "map_of kvs ''vibration'' = Some y"
    and "py_float lib x = Inr t" and "py_float lib y = Inr v"
  shows "read_fields lib (JObject kvs) = Inr (t, v)"
  using assms by (simp add: read_fields_def)

text \<open>What is not a \<open>dict\<close>, or lacks a field, or holds what \<open>float\<close> refuses.\<close>

lemma read_fields_not_object:
  "\<forall>kvs. data \<noteq> JObject kvs \<Longrightarrow> read_fields lib data = Inl TypeError"
  by (cases data) (simp_all add: read_fields_def)

lemma read_fields_no_temperature:
  "map_of kvs ''temperature'' = None \<Longrightarrow> read_fields lib (JObject kvs) = Inl KeyError"
  by (simp add: read_fields_def)

lemma read_fields_no_vibration:
  "map_of kvs ''temperature'' = Some x \<Longrightarrow> py_float lib x = Inr t
     \<Longrightarrow> map_of kvs ''vibration'' = None \<Longrightarrow> read_fields lib (JObject kvs) = Inl KeyError"
  by (simp add: read_fields_def)

lemma py_float_errors:
  "py_float lib x = Inl e \<Longrightarrow> e = TypeError \<or> e = ValueError \<or> e = OverflowError"
  by (cases x) (auto simp add: float_of_int_def split: if_splits option.splits)

lemma py_float_overflow:
  "py_float lib x = Inl OverflowError \<Longrightarrow> \<exists>i. x = JInt i \<and> 2 ^ 1024 - 2 ^ 970 \<le> \<bar>i\<bar>"
  by (cases x) (auto simp add: float_of_int_def split: if_splits option.splits)

lemma py_int_one_iff: "py_int (SFloat (Finite q)) = Inr k \<Longrightarrow> (k = 1) = (1 \<le> q \<and> q < 2)"
  by (auto simp add: floor_eq_iff ceiling_eq_iff split: if_splits)

subsection \<open>The guard on the model\<close>

text \<open>
  C9. When the userdata has no \<open>'model'\<close> entry, or the entry is \<open>None\<close>, the handler
  prints the diagnostic line and returns: nothing is raised, the line is not an alert,
  and neither the decoder, the parser nor a classifier is called (the trace of calls is
  as it was), whatever the message and the libraries are.
\<close>

theorem on_message_without_model:
  assumes "userdata ''model'' = None \<or> userdata ''model'' = Some None"
  shows "on_message lib userdata msg w =
           (Inr (), w\<lparr>console := console w
                        @ [''Model not found in userdata; cannot run inference.'']\<rparr>)
         \<and> \<not> is_alert ''Model not found in userdata; cannot run inference.''"
  using assms by (auto simp add: on_message_def dict_get_def print_def diagnostic_not_alert)

theorem on_message_without_model_witness:
  "((Map.empty :: str \<rightharpoonup> classifier option) ''model'' = None
      \<or> (Map.empty :: str \<rightharpoonup> classifier option) ''model'' = Some None)
   \<and> on_message stub_lib Map.empty (telemetry hot_payload) silent =
       (Inr (), \<lparr>console = [''Model not found in userdata; cannot run inference.''],
                  trace = []\<rparr>)
   \<and> ([''model'' \<mapsto> None :: classifier option] ''model'' = None
      \<or> [''model'' \<mapsto> None :: classifier option] ''model'' = Some None)
   \<and> on_message stub_lib [''model'' \<mapsto> None] (telemetry hot_payload) silent =
       (Inr (), \<lparr>console = [''Model not found in userdata; cannot run inference.''],
                  trace = []\<rparr>)"
  using on_message_without_model [where userdata = Map.empty and lib = stub_lib
      and msg = "telemetry hot_payload" and w = silent]
    on_message_without_model [where userdata = "[''model'' \<mapsto> None]" and lib = stub_lib
      and msg = "telemetry hot_payload" and w = silent]
  by (simp add: silent_def)

subsection \<open>A classifier that raises\<close>

text \<open>
  C4. When the classifier is reached and its \<open>predict\<close> raises, the handler prints the
  line "Model prediction failed: ...", which is not an alert, prints nothing else, and
  returns without raising; the loop goes on with the messages that follow.
\<close>

theorem on_message_predict_raises:
  assumes "userdata ''model'' = Some (Some model)"
    and "decode_utf8 lib (payload msg) = Inr s"
    and "json_loads lib s = Inr data"
    and "read_fields lib data = Inr (t, v)"
    and "predict model (build_features t v) = Inl e"
  shows "on_message lib userdata msg w =
           (Inr (), w\<lparr>console := console w @ [prediction_failed_text lib e],
                       trace := trace w @ [Decode (payload msg), Loads s,
                                           Predict (build_features t v)]\<rparr>)
         \<and> \<not> is_alert (prediction_failed_text lib e)
         \<and> loop_forever lib userdata (msg # msgs) w =
             loop_forever lib userdata msgs
               (w\<lparr>console := console w @ [prediction_failed_text lib e],
                  trace := trace w @ [Decode (payload msg), Loads s,
                                      Predict (build_features t v)]\<rparr>)"
proof -
  have "on_message lib userdata msg w =
           (Inr (), w\<lparr>console := console w @ [prediction_failed_text lib e],
                       trace := trace w @ [Decode (payload msg), Loads s,
                                           Predict (build_features t v)]\<rparr>)"
    using assms(5)
    by (simp add: on_message_parsed [where userdata = userdata and model = model,
          OF assms(1-4)] print_def)
  then show ?thesis by (simp add: diagnostic_not_alert)
qed

theorem on_message_predict_raises_witness:
  "[''model'' \<mapsto> Some failing_model] ''model'' = Some (Some failing_model)
   \<and> decode_utf8 stub_lib (payload (telemetry hot_payload)) = Inr hot_payload
   \<and> json_loads stub_lib hot_payload = Inr hot_data
   \<and> read_fields stub_lib hot_data = Inr (Finite 95, Finite lit_4_2)
   \<and> predict failing_model (build_features (Finite 95) (Finite lit_4_2)) = Inl OtherError
   \<and> on_message stub_lib [''model'' \<mapsto> Some failing_model] (telemetry hot_payload) silent =
       (Inr (), \<lparr>console = [''Model prediction failed: <exc>''],
                  trace = [Decode hot_payload, Loads hot_payload,
                           Predict (build_features (Finite 95) (Finite lit_4_2))]\<rparr>)
   \<and> loop_forever stub_lib [''model'' \<mapsto> Some failing_model] [telemetry hot_payload] silent =
       (Inr (), \<lparr>console = [''Model prediction failed: <exc>''],
                  trace = [Decode hot_payload, Loads hot_payload,
                           Predict (build_features (Finite 95) (Finite lit_4_2))]\<rparr>)"
proof -
  have h1: "[''model'' \<mapsto> Some failing_model] ''model'' = Some (Some failing_model)"
    by simp
  have h5: "predict failing_model (build_features (Finite 95) (Finite lit_4_2)) = Inl OtherError"
    by (simp add: failing_model_def)
  have shown: "prediction_failed_text stub_lib OtherError = ''Model prediction failed: <exc>''"
    by (simp add: prediction_failed_text_def stub_lib_def)
  from on_message_predict_raises [where userdata = "[''model'' \<mapsto> Some failing_model]"
      and model = failing_model and w = silent and msgs = "[]",
      OF h1 stub_decode stub_loads_hot stub_fields_hot h5]
  show ?thesis
    using h1 h5 stub_decode stub_loads_hot stub_fields_hot
    by (simp add: shown silent_def telemetry_def)
qed

subsection \<open>The cast of the prediction\<close>

text \<open>
  C1, as the code has it. For every message whose two fields were read, when \<open>predict\<close>
  returns an array whose first label \<open>p\<close> the cast \<open>int(p)\<close> accepts, the handler calls
  \<open>predict\<close> once, on the one-row frame of the two fields, and prints one line: the
  anomaly line when \<open>int(p)\<close> is 1 and the normal line for every other value. The cast
  truncates toward zero, so a float label counts as anomalous exactly when it lies in
  the interval from 1 (included) to 2 (excluded).
\<close>

theorem on_message_anomalous_iff_truncation:
  assumes "userdata ''model'' = Some (Some model)"
    and "decode_utf8 lib (payload msg) = Inr s"
    and "json_loads lib s = Inr data"
    and "read_fields lib data = Inr (t, v)"
    and "predict model (build_features t v) = Inr (p # ps)"
    and "py_int p = Inr k"
  shows "on_message lib userdata msg w =
           (Inr (), w\<lparr>console := console w
                        @ [if k = 1 then anomaly_text t v else normal_text t v],
                       trace := trace w @ [Decode (payload msg), Loads s,
                                           Predict (build_features t v)]\<rparr>)
         \<and> anomaly_styled (if k = 1 then anomaly_text t v else normal_text t v) = (k = 1)
         \<and> normal_styled (if k = 1 then anomaly_text t v else normal_text t v) = (k \<noteq> 1)
         \<and> (\<forall>q. p = SFloat (Finite q) \<longrightarrow> (k = 1) = (1 \<le> q \<and> q < 2))"
proof -
  have "on_message lib userdata msg w =
           (Inr (), w\<lparr>console := console w
                        @ [if k = 1 then anomaly_text t v else normal_text t v],
                       trace := trace w @ [Decode (payload msg), Loads s,
                                           Predict (build_features t v)]\<rparr>)"
    using assms(5,6)
    by (simp add: on_message_parsed [where userdata = userdata and model = model,
          OF assms(1-4)] print_def)
  moreover have "\<forall>q. p = SFloat (Finite q) \<longrightarrow> (k = 1) = (1 \<le> q \<and> q < 2)"
    using assms(6) py_int_one_iff by blast
  ultimately show ?thesis by (simp add: alert_styles)
qed

theorem on_message_anomalous_iff_truncation_witness:
  "[''model'' \<mapsto> Some (stub_model (SFloat (Finite (3 / 2))))] ''model''
      = Some (Some (stub_model (SFloat (Finite (3 / 2)))))
   \<and> decode_utf8 stub_lib (payload (telemetry hot_payload)) = Inr hot_payload
   \<and> json_loads stub_lib hot_payload = Inr hot_data
   \<and> read_fields stub_lib hot_data = Inr (Finite 95, Finite lit_4_2)
   \<and> predict (stub_model (SFloat (Finite (3 / 2)))) (build_features (Finite 95) (Finite lit_4_2))
      = Inr [SFloat (Finite (3 / 2))]
   \<and> py_int (SFloat (Finite (3 / 2))) = Inr 1
   \<and> on_message stub_lib [''model'' \<mapsto> Some (stub_model (SFloat (Finite (3 / 2))))]
        (telemetry hot_payload) silent
      = (Inr (), \<lparr>console = [anomaly_text (Finite 95) (Finite lit_4_2)],
                  trace = [Decode hot_payload, Loads hot_payload,
                           Predict (build_features (Finite 95) (Finite lit_4_2))]\<rparr>)"
proof -
  let ?m = "stub_model (SFloat (Finite (3 / 2)))"
  have h1: "[''model'' \<mapsto> Some ?m] ''model'' = Some (Some ?m)" by simp
  have h5: "predict ?m (build_features (Finite 95) (Finite lit_4_2)) = Inr [SFloat (Finite (3 / 2))]"
    by (simp add: stub_model_def)
  have h6: "py_int (SFloat (Finite (3 / 2))) = Inr 1" by simp
  from on_message_anomalous_iff_truncation
         [where userdata = "[''model'' \<mapsto> Some ?m]" and model = ?m and w = silent,
          OF h1 stub_decode stub_loads_hot stub_fields_hot h5 h6]
  show ?thesis
    using h1 stub_decode stub_loads_hot stub_fields_hot h5 h6
    by (simp add: silent_def telemetry_def)
qed

text \<open>
  The claim as worded fails in both directions. A label of 0.75 rounds to 1, yet the
  handler prints the normal line; a label of 1.75 rounds to 2, yet the handler prints
  the anomaly line.
\<close>

theorem round_to_nearest_counterexample:
  "spec_coerce (3 / 4) = 1
   \<and> on_message stub_lib [''model'' \<mapsto> Some (stub_model (SFloat (Finite (3 / 4))))]
        (telemetry hot_payload) silent
      = (Inr (), \<lparr>console = [normal_text (Finite 95) (Finite lit_4_2)],
                  trace = [Decode hot_payload, Loads hot_payload,
                           Predict (build_features (Finite 95) (Finite lit_4_2))]\<rparr>)
   \<and> \<not> anomaly_styled (normal_text (Finite 95) (Finite lit_4_2))
   \<and> spec_coerce (7 / 4) \<noteq> 1
   \<and> on_message stub_lib [''model'' \<mapsto> Some (stub_model (SFloat (Finite (7 / 4))))]
        (telemetry hot_payload) silent
      = (Inr (), \<lparr>console = [anomaly_text (Finite 95) (Finite lit_4_2)],
                  trace = [Decode hot_payload, Loads hot_payload,
                           Predict (build_features (Finite 95) (Finite lit_4_2))]\<rparr>)
   \<and> anomaly_styled (anomaly_text (Finite 95) (Finite lit_4_2))"
proof -
  have a: "spec_coerce (3 / 4) = 1" "spec_coerce (7 / 4) \<noteq> 1"
    by (simp_all add: spec_coerce_def round_def)
  have b: "on_message stub_lib [''model'' \<mapsto> Some (stub_model p)] (telemetry hot_payload) silent
      = (case py_int p of
           Inl e \<Rightarrow> (Inl e, \<lparr>console = [], trace = [Decode hot_payload, Loads hot_payload,
                           Predict (build_features (Finite 95) (Finite lit_4_2))]\<rparr>)
         | Inr k \<Rightarrow> (Inr (), \<lparr>console = [if k = 1 then anomaly_text (Finite 95) (Finite lit_4_2)
                                          else normal_text (Finite 95) (Finite lit_4_2)],
                  trace = [Decode hot_payload, Loads hot_payload,
                           Predict (build_features (Finite 95) (Finite lit_4_2))]\<rparr>))" for p
  proof -
    have h1: "[''model'' \<mapsto> Some (stub_model p)] ''model'' = Some (Some (stub_model p))"
      by simp
    show ?thesis
      unfolding on_message_parsed [where userdata = "[''model'' \<mapsto> Some (stub_model p)]"
          and model = "stub_model p" and w = silent,
          OF h1 stub_decode stub_loads_hot stub_fields_hot]
      by (simp add: stub_model_def silent_def print_def telemetry_def split: sum.splits)
  qed
  show ?thesis by (simp add: a b alert_styles)
qed

subsection \<open>The two documented payloads\<close>

lemma anomaly_text_hot:
  "anomaly_text (Finite 95) (Finite lit_4_2) =
     COLOR_RED @ COLOR_BOLD @ siren
       @ '' [ALERT] ANOMALY DETECTED! Machine failure imminent! Temp: 95.00'' @ degree
       @ ''C, Vib: 4.20 mm/s '' @ siren @ COLOR_RESET"
  by (simp add: anomaly_text_def format_2f_95 format_2f_4_2)

lemma normal_text_cool:
  "normal_text (Finite 68) (Finite lit_1_8) =
     COLOR_GREEN @ ''[NORMAL]'' @ COLOR_RESET @ '' Temp: 68.00'' @ degree @ ''C, Vib: 1.80 mm/s''"
  by (simp add: normal_text_def format_2f_68 format_2f_1_8)

lemma contains_hot:
  "contains ''95.00'' (anomaly_text (Finite 95) (Finite lit_4_2))"
  "contains ''4.20'' (anomaly_text (Finite 95) (Finite lit_4_2))"
  by (simp_all add: anomaly_text_hot starts_with_def COLOR_RED_def COLOR_BOLD_def siren_def
      degree_def COLOR_RESET_def)

lemma contains_cool:
  "contains ''68.00'' (normal_text (Finite 68) (Finite lit_1_8))"
  "contains ''1.80'' (normal_text (Finite 68) (Finite lit_1_8))"
  by (simp_all add: normal_text_cool starts_with_def COLOR_GREEN_def degree_def COLOR_RESET_def)

text \<open>
  C2. The payload \<open>{"temperature": 95.0, "vibration": 4.2}\<close> with a classifier that
  returns 1 makes the handler print exactly one line, the anomaly line, which contains
  \<open>95.00\<close> and \<open>4.20\<close>; the payload \<open>{"temperature": 68.0, "vibration": 1.8}\<close> with a
  classifier that returns 0 makes it print exactly one line, the normal line, which
  contains \<open>68.00\<close> and \<open>1.80\<close>.
\<close>

theorem on_message_documented_payloads:
  assumes "userdata1 ''model'' = Some (Some model1)"
    and "predict model1 (build_features (Finite 95) (Finite lit_4_2)) = Inr [SInt 1]"
    and "decode_utf8 lib (payload hot) = Inr s1"
    and "json_loads lib s1 = Inr hot_data"
    and "userdata0 ''model'' = Some (Some model0)"
    and "predict model0 (build_features (Finite 68) (Finite lit_1_8)) = Inr [SInt 0]"
    and "decode_utf8 lib (payload cool) = Inr s0"
    and "json_loads lib s0 = Inr cool_data"
  shows "on_message lib userdata1 hot w =
           (Inr (), w\<lparr>console := console w @ [anomaly_text (Finite 95) (Finite lit_4_2)],
                       trace := trace w @ [Decode (payload hot), Loads s1,
                                  Predict (build_features (Finite 95) (Finite lit_4_2))]\<rparr>)
         \<and> anomaly_styled (anomaly_text (Finite 95) (Finite lit_4_2))
         \<and> contains ''95.00'' (anomaly_text (Finite 95) (Finite lit_4_2))
         \<and> contains ''4.20'' (anomaly_text (Finite 95) (Finite lit_4_2))
         \<and> on_message lib userdata0 cool w =
           (Inr (), w\<lparr>console := console w @ [normal_text (Finite 68) (Finite lit_1_8)],
                       trace := trace w @ [Decode (payload cool), Loads s0,
                                  Predict (build_features (Finite 68) (Finite lit_1_8))]\<rparr>)
         \<and> normal_styled (normal_text (Finite 68) (Finite lit_1_8))
         \<and> contains ''68.00'' (normal_text (Finite 68) (Finite lit_1_8))
         \<and> contains ''1.80'' (normal_text (Finite 68) (Finite lit_1_8))"
proof -
  have f1: "read_fields lib hot_data = Inr (Finite 95, Finite lit_4_2)"
    by (simp add: read_fields_def hot_data_def)
  have f0: "read_fields lib cool_data = Inr (Finite 68, Finite lit_1_8)"
    by (simp add: read_fields_def cool_data_def)
  have "on_message lib userdata1 hot w =
           (Inr (), w\<lparr>console := console w @ [anomaly_text (Finite 95) (Finite lit_4_2)],
                       trace := trace w @ [Decode (payload hot), Loads s1,
                                  Predict (build_features (Finite 95) (Finite lit_4_2))]\<rparr>)"
    using assms(2)
    by (simp add: on_message_parsed [where userdata = userdata1 and model = model1,
          OF assms(1) assms(3) assms(4) f1] print_def)
  moreover have "on_message lib userdata0 cool w =
           (Inr (), w\<lparr>console := console w @ [normal_text (Finite 68) (Finite lit_1_8)],
                       trace := trace w @ [Decode (payload cool), Loads s0,
                                  Predict (build_features (Finite 68) (Finite lit_1_8))]\<rparr>)"
    using assms(6)
    by (simp add: on_message_parsed [where userdata = userdata0 and model = model0,
          OF assms(5) assms(7) assms(8) f0] print_def)
  ultimately show ?thesis
    by (simp add: alert_styles contains_hot contains_cool)
qed

theorem on_message_documented_payloads_witness:
  "[''model'' \<mapsto> Some (stub_model (SInt 1))] ''model'' = Some (Some (stub_model (SInt 1)))
   \<and> predict (stub_model (SInt 1)) (build_features (Finite 95) (Finite lit_4_2)) = Inr [SInt 1]
   \<and> decode_utf8 stub_lib (payload (telemetry hot_payload)) = Inr hot_payload
   \<and> json_loads stub_lib hot_payload = Inr hot_data
   \<and> [''model'' \<mapsto> Some (stub_model (SInt 0))] ''model'' = Some (Some (stub_model (SInt 0)))
   \<and> predict (stub_model (SInt 0)) (build_features (Finite 68) (Finite lit_1_8)) = Inr [SInt 0]
   \<and> decode_utf8 stub_lib (payload (telemetry cool_payload)) = Inr cool_payload
   \<and> json_loads stub_lib cool_payload = Inr cool_data
   \<and> console (snd (on_message stub_lib [''model'' \<mapsto> Some (stub_model (SInt 1))]
                      (telemetry hot_payload) silent))
      = [COLOR_RED @ COLOR_BOLD @ siren
           @ '' [ALERT] ANOMALY DETECTED! Machine failure imminent! Temp: 95.00'' @ degree
           @ ''C, Vib: 4.20 mm/s '' @ siren @ COLOR_RESET]
   \<and> console (snd (on_message stub_lib [''model'' \<mapsto> Some (stub_model (SInt 0))]
                      (telemetry cool_payload) silent))
      = [COLOR_GREEN @ ''[NORMAL]'' @ COLOR_RESET @ '' Temp: 68.00'' @ degree
           @ ''C, Vib: 1.80 mm/s'']"
proof -
  have h1: "[''model'' \<mapsto> Some (stub_model (SInt 1))] ''model'' = Some (Some (stub_model (SInt 1)))"
    by simp
  have h2: "predict (stub_model (SInt 1)) (build_features (Finite 95) (Finite lit_4_2)) = Inr [SInt 1]"
    by (simp add: stub_model_def)
  have h5: "[''model'' \<mapsto> Some (stub_model (SInt 0))] ''model'' = Some (Some (stub_model (SInt 0)))"
    by simp
  have h6: "predict (stub_model (SInt 0)) (build_features (Finite 68) (Finite lit_1_8)) = Inr [SInt 0]"
    by (simp add: stub_model_def)
  from on_message_documented_payloads
    [where ?userdata1.0 = "[''model'' \<mapsto> Some (stub_model (SInt 1))]"
       and ?model1.0 = "stub_model (SInt 1)"
       and ?userdata0.0 = "[''model'' \<mapsto> Some (stub_model (SInt 0))]"
       and ?model0.0 = "stub_model (SInt 0)" and w = silent,
     OF h1 h2 stub_decode stub_loads_hot h5 h6 stub_decode stub_loads_cool]
  show ?thesis
    using h1 h2 h5 h6 stub_decode stub_loads_hot stub_loads_cool
    by (simp add: silent_def anomaly_text_hot normal_text_cool)
qed

subsection \<open>Fields that are not numbers\<close>

lemma format_2f_1: "format_2f (Finite 1) = ''1.00''"
  by (simp add: format_2f_def round_half_even_def dec.simps digit_def)

lemma alert_line_is_alert:
  "is_alert (if k = 1 then anomaly_text t v else normal_text t v)"
  by (simp add: is_alert_def alert_styles)

text \<open>
  C10. When both fields are present and \<open>float\<close> converts both, whatever their JSON type
  (a numeric string, a boolean), the message is not dropped: the fields are read, the
  classifier is called on the converted values, and the handler returns and prints
  exactly what it does for the payload that holds the converted values as numbers. In
  particular, when the classifier returns a label that \<open>int\<close> accepts, the handler
  prints exactly one line, and that line is the alert built from the converted values.
\<close>

theorem on_message_accepts_convertible_fields:
  assumes "userdata ''model'' = Some (Some model)"
    and "decode_utf8 lib (payload msg) = Inr s"
    and "json_loads lib s = Inr (JObject kvs)"
    and "map_of kvs ''temperature'' = Some x"
    and "map_of kvs ''vibration'' = Some y"
    and "py_float lib x = Inr t"
    and "py_float lib y = Inr v"
    and "decode_utf8 lib (payload num) = Inr s'"
    and "json_loads lib s' = Inr (JObject [(''temperature'', JFloat t), (''vibration'', JFloat v)])"
  shows "read_fields lib (JObject kvs) = Inr (t, v)
         \<and> trace (snd (on_message lib userdata msg w)) =
             trace w @ [Decode (payload msg), Loads s, Predict (build_features t v)]
         \<and> fst (on_message lib userdata msg w) = fst (on_message lib userdata num w)
         \<and> console (snd (on_message lib userdata msg w)) =
             console (snd (on_message lib userdata num w))
         \<and> (\<forall>p ps k. predict model (build_features t v) = Inr (p # ps) \<longrightarrow> py_int p = Inr k \<longrightarrow>
               on_message lib userdata msg w =
                 (Inr (), w\<lparr>console := console w
                              @ [if k = 1 then anomaly_text t v else normal_text t v],
                             trace := trace w @ [Decode (payload msg), Loads s,
                                                 Predict (build_features t v)]\<rparr>)
               \<and> is_alert (if k = 1 then anomaly_text t v else normal_text t v))"
proof -
  have f: "read_fields lib (JObject kvs) = Inr (t, v)"
    using assms(4-7) by (rule read_fields_object)
  have g: "read_fields lib (JObject [(''temperature'', JFloat t), (''vibration'', JFloat v)]) = Inr (t, v)"
    by (simp add: read_fields_def)
  note a = on_message_parsed [where userdata = userdata and model = model and w = w,
      OF assms(1) assms(2) assms(3) f]
  note b = on_message_parsed [where userdata = userdata and model = model and w = w,
      OF assms(1) assms(8) assms(9) g]
  have same: "trace (snd (on_message lib userdata msg w)) =
             trace w @ [Decode (payload msg), Loads s, Predict (build_features t v)]
         \<and> fst (on_message lib userdata msg w) = fst (on_message lib userdata num w)
         \<and> console (snd (on_message lib userdata msg w)) =
             console (snd (on_message lib userdata num w))"
    unfolding a b by (simp add: print_def Let_def split: sum.splits)
  have printed: "on_message lib userdata msg w =
                 (Inr (), w\<lparr>console := console w
                              @ [if k = 1 then anomaly_text t v else normal_text t v],
                             trace := trace w @ [Decode (payload msg), Loads s,
                                                 Predict (build_features t v)]\<rparr>)"
    if "predict model (build_features t v) = Inr (p # ps)" and "py_int p = Inr k" for p ps k
    unfolding a using that by (simp add: print_def)
  show ?thesis
    using f same printed alert_line_is_alert by blast
qed

theorem on_message_accepts_convertible_fields_witness:
  "[''model'' \<mapsto> Some (stub_model (SInt 1))] ''model'' = Some (Some (stub_model (SInt 1)))
   \<and> decode_utf8 stub_lib (payload (telemetry text_payload)) = Inr text_payload
   \<and> json_loads stub_lib text_payload
       = Inr (JObject [(''temperature'', JString ''95.0''), (''vibration'', JBool True)])
   \<and> map_of [(''temperature'', JString ''95.0''), (''vibration'', JBool True)] ''temperature''
       = Some (JString ''95.0'')
   \<and> map_of [(''temperature'', JString ''95.0''), (''vibration'', JBool True)] ''vibration''
       = Some (JBool True)
   \<and> py_float stub_lib (JString ''95.0'') = Inr (Finite 95)
   \<and> py_float stub_lib (JBool True) = Inr (Finite 1)
   \<and> decode_utf8 stub_lib (payload (telemetry unit_payload)) = Inr unit_payload
   \<and> json_loads stub_lib unit_payload
       = Inr (JObject [(''temperature'', JFloat (Finite 95)), (''vibration'', JFloat (Finite 1))])
   \<and> predict (stub_model (SInt 1)) (build_features (Finite 95) (Finite 1)) = Inr [SInt 1]
   \<and> py_int (SInt 1) = Inr 1
   \<and> on_message stub_lib [''model'' \<mapsto> Some (stub_model (SInt 1))]
        (telemetry text_payload) silent
       = (Inr (),
          \<lparr>console = [COLOR_RED @ COLOR_BOLD @ siren
              @ '' [ALERT] ANOMALY DETECTED! Machine failure imminent! Temp: 95.00'' @ degree
              @ ''C, Vib: 1.00 mm/s '' @ siren @ COLOR_RESET],
           trace = [Decode text_payload, Loads text_payload,
                    Predict (build_features (Finite 95) (Finite 1))]\<rparr>)
   \<and> is_alert (COLOR_RED @ COLOR_BOLD @ siren
              @ '' [ALERT] ANOMALY DETECTED! Machine failure imminent! Temp: 95.00'' @ degree
              @ ''C, Vib: 1.00 mm/s '' @ siren @ COLOR_RESET)
   \<and> fst (on_message stub_lib [''model'' \<mapsto> Some (stub_model (SInt 1))]
             (telemetry text_payload) silent)
       = fst (on_message stub_lib [''model'' \<mapsto> Some (stub_model (SInt 1))]
                (telemetry unit_payload) silent)
   \<and> console (snd (on_message stub_lib [''model'' \<mapsto> Some (stub_model (SInt 1))]
                      (telemetry text_payload) silent))
       = console (snd (on_message stub_lib [''model'' \<mapsto> Some (stub_model (SInt 1))]
                         (telemetry unit_payload) silent))"
proof -
  let ?kvs = "[(''temperature'', JString ''95.0''), (''vibration'', JBool True)]"
  let ?ud = "[''model'' \<mapsto> Some (stub_model (SInt 1))]"
  have h1: "?ud ''model'' = Some (Some (stub_model (SInt 1)))"
    by simp
  have h3: "json_loads stub_lib text_payload = Inr (JObject ?kvs)"
    using stub_loads_text by (simp add: text_data_def)
  have h4: "map_of ?kvs ''temperature'' = Some (JString ''95.0'')" by simp
  have h5: "map_of ?kvs ''vibration'' = Some (JBool True)" by simp
  have h6: "py_float stub_lib (JString ''95.0'') = Inr (Finite 95)"
    by (simp add: stub_lib_def)
  have h7: "py_float stub_lib (JBool True) = Inr (Finite 1)" by simp
  have h9: "json_loads stub_lib unit_payload
       = Inr (JObject [(''temperature'', JFloat (Finite 95)), (''vibration'', JFloat (Finite 1))])"
    using stub_loads_unit by (simp add: unit_data_def)
  have h10: "predict (stub_model (SInt 1)) (build_features (Finite 95) (Finite 1)) = Inr [SInt 1]"
    by (simp add: stub_model_def)
  have h11: "py_int (SInt 1) = Inr 1" by simp
  have shown: "anomaly_text (Finite 95) (Finite 1) =
      COLOR_RED @ COLOR_BOLD @ siren
        @ '' [ALERT] ANOMALY DETECTED! Machine failure imminent! Temp: 95.00'' @ degree
        @ ''C, Vib: 1.00 mm/s '' @ siren @ COLOR_RESET"
    by (simp add: anomaly_text_def format_2f_95 format_2f_1)
  note T = on_message_accepts_convertible_fields
    [where userdata = ?ud and model = "stub_model (SInt 1)" and w = silent,
     OF h1 stub_decode h3 h4 h5 h6 h7 stub_decode h9]
  note line = T [THEN conjunct2, THEN conjunct2, THEN conjunct2, THEN conjunct2,
      rule_format, OF h10 h11]
  note same = T [THEN conjunct2, THEN conjunct2, THEN conjunct1]
    T [THEN conjunct2, THEN conjunct2, THEN conjunct2, THEN conjunct1]
  from line have line': "on_message stub_lib ?ud (telemetry text_payload) silent
       = (Inr (),
          \<lparr>console = [COLOR_RED @ COLOR_BOLD @ siren
              @ '' [ALERT] ANOMALY DETECTED! Machine failure imminent! Temp: 95.00'' @ degree
              @ ''C, Vib: 1.00 mm/s '' @ siren @ COLOR_RESET],
           trace = [Decode text_payload, Loads text_payload,
                    Predict (build_features (Finite 95) (Finite 1))]\<rparr>)"
    and alert: "is_alert (COLOR_RED @ COLOR_BOLD @ siren
              @ '' [ALERT] ANOMALY DETECTED! Machine failure imminent! Temp: 95.00'' @ degree
              @ ''C, Vib: 1.00 mm/s '' @ siren @ COLOR_RESET)"
    by (simp_all add: shown silent_def telemetry_def)
  show ?thesis
    by (intro conjI h1 stub_decode h3 h4 h5 h6 h7 h9 h10 h11 line' alert same)
qed

subsection \<open>Fields that \<open>float\<close> refuses\<close>

text \<open>
  The conversion can fail with \<open>TypeError\<close>, \<open>ValueError\<close> or \<open>OverflowError\<close>; the last
  is raised for an integer too large for a float, and the \<open>except\<close> clause of the
  extraction does not name it (\<open>py_float_errors\<close>, \<open>py_float_overflow\<close>,
  \<open>on_message_fields_rejected\<close>).
\<close>

lemma float_of_int_huge: "float_of_int huge_int = Inl OverflowError"
  by (simp add: float_of_int_def huge_int_def)

lemma stub_fields_huge: "read_fields stub_lib huge_data = Inl OverflowError"
  by (simp add: read_fields_def huge_data_def float_of_int_huge)

text \<open>
  C3, at a payload whose temperature is the integer \<open>10^309\<close>: the field cannot be
  converted, and the handler does not drop the message. \<open>OverflowError\<close> leaves the
  handler, and the loop ends without handling the message that follows.
\<close>

theorem on_message_overflow_escapes:
  "json_loads stub_lib huge_payload
     = Inr (JObject [(''temperature'', JInt huge_int), (''vibration'', JFloat (Finite lit_1_8))])
   \<and> on_message stub_lib [''model'' \<mapsto> Some (stub_model (SInt 0))]
        (telemetry huge_payload) silent
      = (Inl OverflowError, \<lparr>console = [], trace = [Decode huge_payload, Loads huge_payload]\<rparr>)
   \<and> loop_forever stub_lib [''model'' \<mapsto> Some (stub_model (SInt 0))]
        [telemetry huge_payload, telemetry cool_payload] silent
      = (Inl OverflowError, \<lparr>console = [], trace = [Decode huge_payload, Loads huge_payload]\<rparr>)"
proof -
  have h1: "[''model'' \<mapsto> Some (stub_model (SInt 0))] ''model'' = Some (Some (stub_model (SInt 0)))"
    by simp
  have a: "on_message stub_lib [''model'' \<mapsto> Some (stub_model (SInt 0))]
        (telemetry huge_payload) silent
      = (Inl OverflowError, \<lparr>console = [], trace = [Decode huge_payload, Loads huge_payload]\<rparr>)"
    unfolding on_message_fields_rejected
      [where userdata = "[''model'' \<mapsto> Some (stub_model (SInt 0))]"
         and model = "stub_model (SInt 0)" and w = silent,
       OF h1 stub_decode stub_loads_huge stub_fields_huge]
    by (simp add: caught_by_field_handler_def silent_def telemetry_def)
  have b: "json_loads stub_lib huge_payload
     = Inr (JObject [(''temperature'', JInt huge_int), (''vibration'', JFloat (Finite lit_1_8))])"
    using stub_loads_huge by (simp only: huge_data_def)
  show ?thesis using b by (simp only: a loop_forever.simps) simp
qed

section \<open>Properties of the generator\<close>

subsection \<open>The constants and the arrays\<close>

lemma stub_rng_contract: "generator_contract stub_rng"
  by (simp add: generator_contract_def stub_rng_def)

lemma anomaly_count_500: "anomaly_count = 500"
  by (simp add: anomaly_count_def n_rows_def lit_0_05_def round_binary64_def
      round_half_even_def bit_length.simps)

lemma fold_update_length: "length (fold (\<lambda>i b. b[i := v]) idx a) = length a"
  by (induction idx arbitrary: a) simp_all

lemma fold_update_nth:
  "i < length a \<Longrightarrow> fold (\<lambda>i b. b[i := v]) idx a ! i = (if i \<in> set idx then v else a ! i)"
  by (induction idx arbitrary: a) (auto simp add: nth_list_update)

lemma fold_zip_length: "length (fold (\<lambda>(i, x) b. b[i := x]) ps a) = length a"
  by (induction ps arbitrary: a) (simp_all add: case_prod_beta)

lemma fold_zip_nth_other:
  "i \<notin> fst ` set ps \<Longrightarrow> fold (\<lambda>(i, x) b. b[i := x]) ps a ! i = a ! i"
  by (induction ps arbitrary: a) (auto simp add: case_prod_beta)

lemma fold_zip_nth_drawn:
  "i \<in> set idx \<Longrightarrow> length vals = length idx \<Longrightarrow> i < length a
     \<Longrightarrow> fold (\<lambda>(i, x) b. b[i := x]) (zip idx vals) a ! i \<in> set vals"
proof (induction idx arbitrary: vals a)
  case Nil
  then show ?case by simp
next
  case (Cons j idx)
  then obtain x xs where vals: "vals = x # xs" and len: "length xs = length idx"
    by (cases vals) auto
  show ?case
  proof (cases "i \<in> set idx")
    case True
    with Cons.IH [of xs "a[j := x]"] len Cons.prems(3) show ?thesis
      by (simp add: vals)
  next
    case False
    with Cons.prems(1) have "i = j" by simp
    moreover from False have "i \<notin> fst ` set (zip idx xs)"
      by (auto dest: set_zip_leftD)
    ultimately show ?thesis
      using Cons.prems(3) by (simp add: vals fold_zip_nth_other)
  qed
qed

lemma fill_mask_length: "length (fill_mask a sel vs) = length a"
  by (induction a sel vs rule: fill_mask.induct) simp_all

lemma count_below: "length (filter P [0..<n]) = card {i. i < n \<and> P i}"
  using length_filter_conv_card [of P "[0..<n]"] by (simp cong: conj_cong)

lemma labels_nth:
  assumes "\<forall>i \<in> set idx. i < n" and "i < n"
  shows "fold (\<lambda>i b. b[i := 1]) idx (np_zeros n) ! i = (if i \<in> set idx then 1 else 0)"
  using assms(2) by (simp add: fold_update_nth np_zeros_def)

lemma contract_choice:
  assumes "generator_contract rng"
  shows "length (fst (choice rng n_rows anomaly_count g)) = anomaly_count"
    and "distinct (fst (choice rng n_rows anomaly_count g))"
    and "\<forall>i \<in> set (fst (choice rng n_rows anomaly_count g)). i < n_rows"
proof -
  have "anomaly_count \<le> n_rows" by (simp add: anomaly_count_500 n_rows_def)
  with assms show "length (fst (choice rng n_rows anomaly_count g)) = anomaly_count"
    and "distinct (fst (choice rng n_rows anomaly_count g))"
    and "\<forall>i \<in> set (fst (choice rng n_rows anomaly_count g)). i < n_rows"
    unfolding generator_contract_def by blast+
qed

subsection \<open>The run of the program\<close>

text \<open>
  With a generator that keeps its contract no array operation raises, and the program
  arrives at the frame: row \<open>i\<close> holds the \<open>i\<close>-th timestamp of the range, the label
  that the sample of indices gave position \<open>i\<close>, and the values of the two columns, of
  which those at the sampled positions are uniform draws.
\<close>

lemma main_result:
  assumes "generator_contract rng"
  shows "\<exists>temp vib. length temp = n_rows \<and> length vib = n_rows
     \<and> (\<forall>i \<in> set (fst (choice rng n_rows anomaly_count g0)).
           80 \<le> temp ! i \<and> temp ! i \<le> 100 \<and> 3 \<le> vib ! i \<and> vib ! i \<le> 5)
     \<and> main rng g0 now jt jv =
         Some (map (\<lambda>i. \<lparr>timestamp = date_range (replace_second_microsecond now
                                         - (int n_rows - 1) * minute) n_rows ! i,
                          machineId = machine_id, temperature = temp ! i,
                          vibration = np_clip_min vib 0 ! i,
                          is_anomaly = fold (\<lambda>i b. b[i := 1])
                            (fst (choice rng n_rows anomaly_count g0)) (np_zeros n_rows) ! i\<rparr>)
                 [0..<n_rows])"
proof -
  obtain idx g1 where c: "choice rng n_rows anomaly_count g0 = (idx, g1)"
    by fastforce
  then have idx_eq: "fst (choice rng n_rows anomaly_count g0) = idx"
    by simp
  have le: "anomaly_count \<le> n_rows"
    by (simp add: anomaly_count_500 n_rows_def)
  have idx: "length idx = anomaly_count" "\<forall>i \<in> set idx. i < n_rows"
    using assms le unfolding generator_contract_def idx_eq [symmetric] by blast+
  let ?lab = "fold (\<lambda>i b. b[i := 1]) idx (np_zeros n_rows)"
  have lab: "put_scalar (np_zeros n_rows) idx 1 = Some ?lab"
    using idx(2) by (simp add: put_scalar_def np_zeros_def)
  have lab_len: "length ?lab = n_rows"
    by (simp add: fold_update_length np_zeros_def)
  define sel where "sel = map (\<lambda>x. x = 0) ?lab"
  define nc where "nc = length (filter (\<lambda>b. b) sel)"
  have sel_len: "length sel = n_rows" by (simp add: sel_def lab_len)
  obtain nt g2 where n1: "normal rng 68 3 nc g1 = (nt, g2)" by fastforce
  have nt_len: "length nt = nc"
    using assms n1 unfolding generator_contract_def by (metis fst_conv)
  define t1 where "t1 = fill_mask (np_empty n_rows jt) sel nt"
  have t1: "put_mask (np_empty n_rows jt) sel nt = Some t1"
    by (simp add: put_mask_def np_empty_def sel_len nt_len nc_def t1_def)
  have t1_len: "length t1 = n_rows" by (simp add: t1_def fill_mask_length np_empty_def)
  obtain nv g3 where n2: "normal rng lit_1_8 lit_0_3 nc g2 = (nv, g3)" by fastforce
  have nv_len: "length nv = nc"
    using assms n2 unfolding generator_contract_def by (metis fst_conv)
  define v1 where "v1 = fill_mask (np_empty n_rows jv) sel nv"
  have v1: "put_mask (np_empty n_rows jv) sel nv = Some v1"
    by (simp add: put_mask_def np_empty_def sel_len nv_len nc_def v1_def)
  have v1_len: "length v1 = n_rows" by (simp add: v1_def fill_mask_length np_empty_def)
  obtain st g4 where u1: "uniform rng 80 100 anomaly_count g3 = (st, g4)" by fastforce
  have st: "length st = anomaly_count" "\<forall>x \<in> set st. 80 \<le> x \<and> x \<le> 100"
  proof -
    have "(80::real) \<le> 100" by simp
    with assms have "length (fst (uniform rng 80 100 anomaly_count g3)) = anomaly_count
        \<and> (\<forall>x \<in> set (fst (uniform rng 80 100 anomaly_count g3)). 80 \<le> x \<and> x \<le> 100)"
      unfolding generator_contract_def by blast
    then show "length st = anomaly_count" "\<forall>x \<in> set st. 80 \<le> x \<and> x \<le> 100"
      by (simp_all add: u1)
  qed
  define t2 where "t2 = fold (\<lambda>(i, x) b. b[i := x]) (zip idx st) t1"
  have t2: "put_index t1 idx st = Some t2"
    using idx by (simp add: put_index_def t1_len st(1) t2_def)
  have t2_len: "length t2 = n_rows" by (simp add: t2_def fold_zip_length t1_len)
  obtain sv g5 where u2: "uniform rng 3 5 anomaly_count g4 = (sv, g5)" by fastforce
  have sv: "length sv = anomaly_count" "\<forall>x \<in> set sv. 3 \<le> x \<and> x \<le> 5"
  proof -
    have "(3::real) \<le> 5" by simp
    with assms have "length (fst (uniform rng 3 5 anomaly_count g4)) = anomaly_count
        \<and> (\<forall>x \<in> set (fst (uniform rng 3 5 anomaly_count g4)). 3 \<le> x \<and> x \<le> 5)"
      unfolding generator_contract_def by blast
    then show "length sv = anomaly_count" "\<forall>x \<in> set sv. 3 \<le> x \<and> x \<le> 5"
      by (simp_all add: u2)
  qed
  define v2 where "v2 = fold (\<lambda>(i, x) b. b[i := x]) (zip idx sv) v1"
  have v2: "put_index v1 idx sv = Some v2"
    using idx by (simp add: put_index_def v1_len sv(1) v2_def)
  have v2_len: "length v2 = n_rows" by (simp add: v2_def fold_zip_length v1_len)
  have in_t: "80 \<le> t2 ! i \<and> t2 ! i \<le> 100" if "i \<in> set idx" for i
  proof -
    have "t2 ! i \<in> set st"
      unfolding t2_def using that idx st(1) by (intro fold_zip_nth_drawn) (simp_all add: t1_len)
    with st(2) show ?thesis by blast
  qed
  have in_v: "3 \<le> v2 ! i \<and> v2 ! i \<le> 5" if "i \<in> set idx" for i
  proof -
    have "v2 ! i \<in> set sv"
      unfolding v2_def using that idx sv(1) by (intro fold_zip_nth_drawn) (simp_all add: v1_len)
    with sv(2) show ?thesis by blast
  qed
  have m: "main rng g0 now jt jv =
      DataFrame (date_range (replace_second_microsecond now - (int n_rows - 1) * minute) n_rows)
        machine_id t2 (np_clip_min v2 0) ?lab"
    unfolding main_def Let_def rng_choice_def
    by (simp only: le if_True c option.case prod.case lab sel_def [symmetric] nc_def [symmetric]
        n1 t1 n2 v1 u1 t2 u2 v2)
  have "main rng g0 now jt jv =
         Some (map (\<lambda>i. \<lparr>timestamp = date_range (replace_second_microsecond now
                                         - (int n_rows - 1) * minute) n_rows ! i,
                          machineId = machine_id, temperature = t2 ! i,
                          vibration = np_clip_min v2 0 ! i,
                          is_anomaly = ?lab ! i\<rparr>)
                 [0..<n_rows])"
    unfolding m by (simp add: DataFrame_def date_range_def t2_len v2_len lab_len np_clip_min_def)
  with t2_len v2_len in_t in_v show ?thesis unfolding idx_eq by blast
qed

subsection \<open>The labels\<close>

text \<open>
  C5. Every generated dataset has exactly \<open>round(10000 * 0.05) = 500\<close> rows labelled 1:
  the label column is the array of zeros with 1 stored at the indices of the sample
  without replacement, which is the first draw from the generator, made before any value
  is drawn.
\<close>

theorem main_anomaly_count:
  assumes "generator_contract rng"
  shows "case main rng g0 now junk_t junk_v of
           None \<Rightarrow> False
         | Some df \<Rightarrow>
             length (filter (\<lambda>r. is_anomaly r = 1) df) = 500
             \<and> anomaly_count = 500
             \<and> map is_anomaly df =
                 fold (\<lambda>i b. b[i := 1]) (fst (choice rng n_rows anomaly_count g0))
                   (np_zeros n_rows)"
proof -
  let ?idx = "fst (choice rng n_rows anomaly_count g0)"
  let ?lab = "fold (\<lambda>i b. b[i := 1]) ?idx (np_zeros n_rows)"
  note idx = contract_choice [OF assms, of g0]
  from main_result [OF assms, of g0 now junk_t junk_v]
  obtain df where df: "main rng g0 now junk_t junk_v = Some df"
    and lab: "map is_anomaly df = map (\<lambda>i. ?lab ! i) [0..<n_rows]"
    by (auto simp add: comp_def)
  have len: "length ?lab = n_rows" by (simp add: fold_update_length np_zeros_def)
  have lab': "map is_anomaly df = ?lab"
    unfolding lab using map_nth [of ?lab] by (simp only: len)
  have "length (filter (\<lambda>r. is_anomaly r = 1) df)
        = length (filter (\<lambda>x. x = 1) (map is_anomaly df))"
    by (simp add: filter_map comp_def)
  also have "\<dots> = length (filter (\<lambda>i. ?lab ! i = 1) [0..<n_rows])"
    unfolding lab by (simp add: filter_map comp_def)
  also have "\<dots> = card {i. i < n_rows \<and> ?lab ! i = 1}"
    by (rule count_below)
  also have "{i. i < n_rows \<and> ?lab ! i = 1} = set ?idx"
    using idx(3) by (auto simp add: labels_nth split: if_splits)
  also have "card (set ?idx) = anomaly_count"
    using idx(1,2) by (simp add: distinct_card)
  finally show ?thesis
    by (simp add: df lab' anomaly_count_500)
qed

theorem main_anomaly_count_witness:
  "generator_contract stub_rng
   \<and> (case main stub_rng () 0 (\<lambda>i. 0) (\<lambda>i. 0) of
        None \<Rightarrow> False
      | Some df \<Rightarrow>
          length (filter (\<lambda>r. is_anomaly r = 1) df) = 500
          \<and> map is_anomaly df = fold (\<lambda>i b. b[i := 1]) [0..<500] (np_zeros n_rows))"
  using main_anomaly_count
      [OF stub_rng_contract,
      where ?g0.0 = "()" and now = 0 and junk_t = "\<lambda>i. 0" and junk_v = "\<lambda>i. 0"]
    stub_rng_contract
  by (simp add: stub_rng_def split: option.splits)

subsection \<open>The values of the anomalous rows\<close>

text \<open>
  C6. In every generated dataset, every row labelled 1 has its temperature in \<open>[80, 100]\<close>
  and its vibration in \<open>[3, 5]\<close>, whatever the draws are.
\<close>

theorem main_anomalous_rows_in_range:
  assumes "generator_contract rng"
  shows "case main rng g0 now junk_t junk_v of
           None \<Rightarrow> False
         | Some df \<Rightarrow>
             (\<forall>r \<in> set df. is_anomaly r = 1 \<longrightarrow>
                80 \<le> temperature r \<and> temperature r \<le> 100
                \<and> 3 \<le> vibration r \<and> vibration r \<le> 5)"
proof -
  let ?idx = "fst (choice rng n_rows anomaly_count g0)"
  note idx = contract_choice [OF assms, of g0]
  from main_result [OF assms, of g0 now junk_t junk_v]
  obtain temp vib where len: "length temp = n_rows" "length vib = n_rows"
    and rng: "\<forall>i \<in> set ?idx. 80 \<le> temp ! i \<and> temp ! i \<le> 100 \<and> 3 \<le> vib ! i \<and> vib ! i \<le> 5"
    and m: "main rng g0 now junk_t junk_v =
         Some (map (\<lambda>i. \<lparr>timestamp = date_range (replace_second_microsecond now
                                         - (int n_rows - 1) * minute) n_rows ! i,
                          machineId = machine_id, temperature = temp ! i,
                          vibration = np_clip_min vib 0 ! i,
                          is_anomaly = fold (\<lambda>i b. b[i := 1]) ?idx (np_zeros n_rows) ! i\<rparr>)
                 [0..<n_rows])"
    by blast
  have "80 \<le> temp ! i \<and> temp ! i \<le> 100
        \<and> 3 \<le> np_clip_min vib 0 ! i \<and> np_clip_min vib 0 ! i \<le> 5"
    if "i < n_rows" and "fold (\<lambda>i b. b[i := 1]) ?idx (np_zeros n_rows) ! i = (1 :: 32 word)" for i
  proof -
    from that idx(3) have "i \<in> set ?idx"
      by (simp add: labels_nth split: if_splits)
    with rng have "80 \<le> temp ! i \<and> temp ! i \<le> 100 \<and> 3 \<le> vib ! i \<and> vib ! i \<le> 5"
      by blast
    then show ?thesis
      using that(1) len by (simp add: np_clip_min_def)
  qed
  then show ?thesis
    unfolding m by simp
qed

theorem main_anomalous_rows_in_range_witness:
  "generator_contract stub_rng
   \<and> (case main stub_rng () 0 (\<lambda>i. 0) (\<lambda>i. 0) of
        None \<Rightarrow> False
      | Some df \<Rightarrow>
          (\<forall>r \<in> set df. is_anomaly r = 1 \<longrightarrow>
             80 \<le> temperature r \<and> temperature r \<le> 100
             \<and> 3 \<le> vibration r \<and> vibration r \<le> 5))"
  using main_anomalous_rows_in_range
      [OF stub_rng_contract,
      where ?g0.0 = "()" and now = 0 and junk_t = "\<lambda>i. 0" and junk_v = "\<lambda>i. 0"]
    stub_rng_contract
  by simp

subsection \<open>The clamp\<close>

text \<open>
  C8. In every generated dataset every vibration value is non-negative, in the rows of
  either label: the clamp is applied to the whole column after both classes were filled.
\<close>

theorem main_vibration_nonnegative:
  assumes "generator_contract rng"
  shows "case main rng g0 now junk_t junk_v of
           None \<Rightarrow> False
         | Some df \<Rightarrow>
             (\<forall>r \<in> set df. (is_anomaly r = 0 \<or> is_anomaly r = 1) \<and> 0 \<le> vibration r)"
proof -
  let ?idx = "fst (choice rng n_rows anomaly_count g0)"
  note idx = contract_choice [OF assms, of g0]
  from main_result [OF assms, of g0 now junk_t junk_v]
  obtain temp vib where len: "length vib = n_rows"
    and m: "main rng g0 now junk_t junk_v =
         Some (map (\<lambda>i. \<lparr>timestamp = date_range (replace_second_microsecond now
                                         - (int n_rows - 1) * minute) n_rows ! i,
                          machineId = machine_id, temperature = temp ! i,
                          vibration = np_clip_min vib 0 ! i,
                          is_anomaly = fold (\<lambda>i b. b[i := 1]) ?idx (np_zeros n_rows) ! i\<rparr>)
                 [0..<n_rows])"
    by blast
  show ?thesis
    unfolding m using idx(3) len by (simp add: labels_nth np_clip_min_def)
qed

theorem main_vibration_nonnegative_witness:
  "generator_contract stub_rng
   \<and> (case main stub_rng () 0 (\<lambda>i. 0) (\<lambda>i. 0) of
        None \<Rightarrow> False
      | Some df \<Rightarrow>
          (\<forall>r \<in> set df. (is_anomaly r = 0 \<or> is_anomaly r = 1) \<and> 0 \<le> vibration r))"
  using main_vibration_nonnegative
      [OF stub_rng_contract,
      where ?g0.0 = "()" and now = 0 and junk_t = "\<lambda>i. 0" and junk_v = "\<lambda>i. 0"]
    stub_rng_contract
  by simp

subsection \<open>The timestamps\<close>

lemma anchor_minute:
  "replace_second_microsecond now mod minute = 0"
  "replace_second_microsecond now \<le> now"
  "now < replace_second_microsecond now + minute"
  by (simp_all add: replace_second_microsecond_def minute_def)

text \<open>
  C7. Every generated dataset has exactly 10000 rows; each timestamp is one minute after
  the one before, so they increase strictly; the last one is the anchor, the time of the
  run with its seconds and microseconds set to zero.
\<close>

theorem main_timestamps:
  assumes "generator_contract rng"
  shows "case main rng g0 now junk_t junk_v of
           None \<Rightarrow> False
         | Some df \<Rightarrow>
             length df = 10000
             \<and> (\<forall>i. Suc i < length df \<longrightarrow>
                   timestamp (df ! Suc i) = timestamp (df ! i) + minute)
             \<and> sorted_wrt (<) (map timestamp df)
             \<and> timestamp (last df) = replace_second_microsecond now
             \<and> replace_second_microsecond now mod minute = 0
             \<and> replace_second_microsecond now \<le> now
             \<and> now < replace_second_microsecond now + minute"
proof -
  let ?start = "replace_second_microsecond now - (int n_rows - 1) * minute"
  from main_result [OF assms, of g0 now junk_t junk_v]
  obtain df where df: "main rng g0 now junk_t junk_v = Some df"
    and len: "length df = n_rows"
    and ts: "\<forall>i < n_rows. timestamp (df ! i) = ?start + int i * minute"
    by (auto simp add: date_range_def)
  have step: "timestamp (df ! Suc i) = timestamp (df ! i) + minute" if "Suc i < length df" for i
  proof -
    from that len have "i < n_rows" "Suc i < n_rows" by simp_all
    with ts have "timestamp (df ! i) = ?start + int i * minute"
      and "timestamp (df ! Suc i) = ?start + int (Suc i) * minute"
      by blast+
    then show ?thesis by (simp add: algebra_simps)
  qed
  have "timestamp (df ! i) < timestamp (df ! j)" if "i < j" "j < length df" for i j
  proof -
    from that have "int i * minute < int j * minute" by (simp add: minute_def)
    with that ts len show ?thesis by simp
  qed
  then have sorted: "sorted_wrt (<) (map timestamp df)"
    by (simp add: sorted_wrt_iff_nth_less)
  have "df \<noteq> []" using len by (auto simp add: n_rows_def)
  then have "timestamp (last df) = timestamp (df ! (n_rows - 1))"
    by (simp add: last_conv_nth len)
  also have "\<dots> = ?start + int (n_rows - 1) * minute"
    using ts by (simp add: n_rows_def)
  also have "\<dots> = replace_second_microsecond now"
    by (simp add: n_rows_def)
  finally have last: "timestamp (last df) = replace_second_microsecond now" .
  show ?thesis
    using step sorted last len by (simp add: df anchor_minute n_rows_def)
qed

theorem main_timestamps_witness:
  "generator_contract stub_rng
   \<and> (case main stub_rng () 90000001 (\<lambda>i. 0) (\<lambda>i. 0) of
        None \<Rightarrow> False
      | Some df \<Rightarrow>
          length df = 10000
          \<and> (\<forall>i. Suc i < length df \<longrightarrow>
                timestamp (df ! Suc i) = timestamp (df ! i) + minute)
          \<and> timestamp (last df) = 60000000)"
  using main_timestamps 
      [OF stub_rng_contract,
      where ?g0.0 = "()" and now = 90000001 and junk_t = "\<lambda>i. 0" and junk_v = "\<lambda>i. 0"]
    stub_rng_contract
  by (simp add: replace_second_microsecond_def minute_def split: option.splits)

end
